theory Spec2Isabelle
  imports Main "HOL-Library.Sublist"
begin

section \<open>ValuePredictReport: a shallow embedding of \<^verbatim>\<open>src/ValuePredict/vp_report.py\<close>\<close>

text \<open>
  The class \<^verbatim>\<open>ValuePredictReport\<close> loads a table, trains a predictor through
  AutoGluon, explains one LightGBM sub-model with SHAP and assembles a Markdown report.
  pandas, AutoGluon, shap and matplotlib are collaborators outside the repository: their
  results enter the model as parameters (the records \<open>predictor\<close> and \<open>env\<close> below),
  their failures as error values, and their effects on files as updates of an explicit
  \<open>world\<close>.

  Python strings are modelled as \<open>string\<close>. The theory is written in ASCII, so a character
  of a source literal beyond ASCII is written by its code point, \<^verbatim>\<open><U+9810>\<close> for
  U+9810; no property below depends on the length of such a literal.
\<close>

subsection \<open>Exceptions\<close>

datatype py_error =
    KeyError string      \<comment> \<open>pandas: a column label that the frame does not have\<close>
  | StopIteration        \<comment> \<open>\<^verbatim>\<open>next\<close> on an exhausted generator\<close>
  | External string      \<comment> \<open>an exception raised inside a collaborator\<close>

subsection \<open>Strings\<close>

text \<open>\<^verbatim>\<open>sub in s\<close> on strings: \<open>sub\<close> occurs in \<open>s\<close> as a contiguous block.\<close>

fun str_contains :: "string \<Rightarrow> string \<Rightarrow> bool" where
  "str_contains sub [] = (sub = [])"
| "str_contains sub (c # cs) = (prefix sub (c # cs) \<or> str_contains sub cs)"

text \<open>\<^verbatim>\<open>sep.join(xs)\<close>.\<close>

fun str_join :: "string \<Rightarrow> string list \<Rightarrow> string" where
  "str_join sep [] = []"
| "str_join sep [x] = x"
| "str_join sep (x # y # ys) = x @ sep @ str_join sep (y # ys)"

text \<open>\<^verbatim>\<open>str(n)\<close> for the result of \<^verbatim>\<open>len\<close>, a natural number.\<close>

definition digit_char :: "nat \<Rightarrow> char" where
  "digit_char d =
     (if d = 0 then CHR ''0'' else if d = 1 then CHR ''1'' else if d = 2 then CHR ''2''
      else if d = 3 then CHR ''3'' else if d = 4 then CHR ''4'' else if d = 5 then CHR ''5''
      else if d = 6 then CHR ''6'' else if d = 7 then CHR ''7'' else if d = 8 then CHR ''8''
      else CHR ''9'')"

fun str_of_nat :: "nat \<Rightarrow> string" where
  "str_of_nat n =
     (if n < 10 then [digit_char n] else str_of_nat (n div 10) @ [digit_char (n mod 10)])"

text \<open>
  \<^verbatim>\<open>os.path.join(a, b)\<close> of \<^verbatim>\<open>posixpath\<close>: an absolute \<open>b\<close> replaces \<open>a\<close>; otherwise
  \<open>b\<close> is appended, after a separator unless \<open>a\<close> is empty or ends with one.
\<close>

definition os_path_join :: "string \<Rightarrow> string \<Rightarrow> string" where
  "os_path_join a b =
     (if take 1 b = ''/'' then b
      else if a = [] \<or> last a = CHR ''/'' then a @ b
      else a @ ''/'' @ b)"

subsection \<open>Data frames\<close>

text \<open>
  A pandas \<^verbatim>\<open>DataFrame\<close>: row labels, column labels, and one list of cells per row.
  \<open>'i\<close> is the type of the row labels (positions for a table read from a file, feature
  names for the importance table), \<open>'c\<close> the type of a cell.
\<close>

record ('i, 'c) frame =
  index :: "'i list"
  columns :: "string list"
  rows :: "'c list list"

text \<open>\<^verbatim>\<open>len(df)\<close> is the number of rows.\<close>

definition len_frame :: "('i, 'c) frame \<Rightarrow> nat" where
  "len_frame df = length (index df)"

text \<open>The slice \<^verbatim>\<open>xs[:n]\<close>: a negative \<open>n\<close> counts from the end.\<close>

definition slice_to :: "int \<Rightarrow> 'a list \<Rightarrow> 'a list" where
  "slice_to n xs = (if n < 0 then take (length xs - nat (- n)) xs else take (nat n) xs)"

text \<open>\<^verbatim>\<open>df.head(n)\<close> is \<^verbatim>\<open>df[:n]\<close>: a new frame with the leading rows.\<close>

definition head :: "('i, 'c) frame \<Rightarrow> int \<Rightarrow> ('i, 'c) frame" where
  "head df n = df\<lparr>index := slice_to n (index df), rows := slice_to n (rows df)\<rparr>"

text \<open>The cells of a row under the column labels that satisfy \<open>P\<close>.\<close>

definition cells_where :: "(string \<Rightarrow> bool) \<Rightarrow> string list \<Rightarrow> 'c list \<Rightarrow> 'c list" where
  "cells_where P cols row = map snd (filter (\<lambda>(c, v). P c) (zip cols row))"

text \<open>\<^verbatim>\<open>df[col]\<close>: the cells under the label \<open>col\<close>, or \<^verbatim>\<open>KeyError\<close>.\<close>

definition getitem :: "('i, 'c) frame \<Rightarrow> string \<Rightarrow> py_error + 'c list list" where
  "getitem df col =
     (if col \<in> set (columns df)
      then Inr (map (cells_where (\<lambda>c. c = col) (columns df)) (rows df))
      else Inl (KeyError col))"

text \<open>
  \<^verbatim>\<open>df.drop(columns=[col], inplace=True)\<close>: every column labelled \<open>col\<close> is removed;
  \<^verbatim>\<open>KeyError\<close> if there is none.
\<close>

definition drop_columns :: "('i, 'c) frame \<Rightarrow> string \<Rightarrow> py_error + ('i, 'c) frame" where
  "drop_columns df col =
     (if col \<in> set (columns df)
      then Inr (df\<lparr>columns := filter (\<lambda>c. c \<noteq> col) (columns df),
                    rows := map (cells_where (\<lambda>c. c \<noteq> col) (columns df)) (rows df)\<rparr>)
      else Inl (KeyError col))"

subsection \<open>The feature recommender\<close>

text \<open>
  \<^verbatim>\<open>
  def recommend_features(self, feature_importance_df, top_k=30):
      importance_top = feature_importance_df.head(top_k).index.tolist()
      return importance_top
  \<close>
\<close>

definition recommend_features :: "(string, 'c) frame \<Rightarrow> int \<Rightarrow> string list" where
  "recommend_features feature_importance_df top_k = index (head feature_importance_df top_k)"

definition top_k_default :: int where
  "top_k_default = 30"

subsection \<open>The model selector\<close>

text \<open>
  \<^verbatim>\<open>next(m for m in predictor.model_names() if "LightGBM" in m)\<close>: the generator is
  advanced to its first element that passes the test; when it is exhausted, \<^verbatim>\<open>next\<close>
  raises \<^verbatim>\<open>StopIteration\<close>.
\<close>

fun next_where :: "('a \<Rightarrow> bool) \<Rightarrow> 'a list \<Rightarrow> py_error + 'a" where
  "next_where P [] = Inl StopIteration"
| "next_where P (m # ms) = (if P m then Inr m else next_where P ms)"

definition select_lightgbm :: "string list \<Rightarrow> py_error + string" where
  "select_lightgbm names = next_where (str_contains ''LightGBM'') names"

subsection \<open>The collaborators\<close>

text \<open>
  What the code asks of a trained \<^verbatim>\<open>TabularPredictor\<close>. \<open>'x\<close> is the type of the
  internal training matrix, \<open>'m\<close> the type of a loaded sub-model. \<open>get_features\<close> stands
  for \<^verbatim>\<open>predictor.feature_metadata.get_features()\<close> and \<open>load_model name\<close> for
  \<^verbatim>\<open>predictor._trainer.load_model(name).model\<close>.
\<close>

record ('c, 'x, 'm) predictor =
  leaderboard :: "(nat, 'c) frame \<Rightarrow> py_error + (nat, 'c) frame"
  feature_importance :: "(nat, 'c) frame \<Rightarrow> py_error + (string, 'c) frame"
  get_features :: "string list"
  load_data_internal :: "string \<Rightarrow> py_error + 'x"
  model_names :: "string list"
  load_model :: "string \<Rightarrow> py_error + 'm"

text \<open>
  The library calls whose results the code consumes. \<open>fit label path eval_metric data\<close>
  stands for \<^verbatim>\<open>TabularPredictor(label=..., path=..., eval_metric=...).fit(data)\<close>,
  \<open>shap_values model X\<close> for \<^verbatim>\<open>shap.TreeExplainer(model).shap_values(X)\<close> with
  attributions of type \<open>'sv\<close>, and the two \<open>to_markdown\<close> fields for
  \<^verbatim>\<open>DataFrame.to_markdown(index=...)\<close> on a frame with named rows and on one with
  numbered rows.
\<close>

record ('c, 'x, 'm, 'sv) env =
  read_csv :: "string \<Rightarrow> py_error + (nat, 'c) frame"
  fit :: "string \<Rightarrow> string \<Rightarrow> string \<Rightarrow> (nat, 'c) frame \<Rightarrow> py_error + ('c, 'x, 'm) predictor"
  shap_values :: "'m \<Rightarrow> 'x \<Rightarrow> py_error + 'sv"
  to_markdown_named :: "bool \<Rightarrow> (string, 'c) frame \<Rightarrow> py_error + string"
  to_markdown_numbered :: "bool \<Rightarrow> (nat, 'c) frame \<Rightarrow> py_error + string"

subsection \<open>The world: standard output, the current figure, files\<close>

datatype plot_type = Default_plot | Bar_plot

datatype ('sv, 'x) artist = Summary_plot 'sv 'x plot_type | Tight_layout

datatype ('sv, 'x) content = Text string | Png "('sv, 'x) artist list"

text \<open>
  \<open>files\<close> holds the files this class writes, \<open>writes\<close> the paths of its write
  operations in the order they happen, \<open>figure\<close> what has been drawn on the current
  matplotlib figure.
\<close>

record ('sv, 'x) world =
  stdout :: "string list"
  figure :: "('sv, 'x) artist list"
  files :: "string \<rightharpoonup> ('sv, 'x) content"
  writes :: "string list"

definition py_print :: "string \<Rightarrow> ('sv, 'x) world \<Rightarrow> ('sv, 'x) world" where
  "py_print line w = w\<lparr>stdout := stdout w @ [line]\<rparr>"

text \<open>\<^verbatim>\<open>plt.figure()\<close>: a new, empty figure becomes the current one.\<close>

definition plt_figure :: "('sv, 'x) world \<Rightarrow> ('sv, 'x) world" where
  "plt_figure w = w\<lparr>figure := []\<rparr>"

text \<open>\<^verbatim>\<open>shap.summary_plot(shap_values, X, plot_type=..., show=False)\<close> draws on the current figure.\<close>

definition summary_plot :: "'sv \<Rightarrow> 'x \<Rightarrow> plot_type \<Rightarrow> ('sv, 'x) world \<Rightarrow> ('sv, 'x) world" where
  "summary_plot sv X pt w = w\<lparr>figure := figure w @ [Summary_plot sv X pt]\<rparr>"

definition plt_tight_layout :: "('sv, 'x) world \<Rightarrow> ('sv, 'x) world" where
  "plt_tight_layout w = w\<lparr>figure := figure w @ [Tight_layout]\<rparr>"

text \<open>\<^verbatim>\<open>plt.savefig(path)\<close> writes the current figure to \<open>path\<close>.\<close>

definition plt_savefig :: "string \<Rightarrow> ('sv, 'x) world \<Rightarrow> ('sv, 'x) world" where
  "plt_savefig path w = w\<lparr>files := (files w)(path \<mapsto> Png (figure w)), writes := writes w @ [path]\<rparr>"

text \<open>\<^verbatim>\<open>with open(path, "w") as f: f.write(text)\<close>: the file is replaced by \<open>text\<close>.\<close>

definition write_text :: "string \<Rightarrow> string \<Rightarrow> ('sv, 'x) world \<Rightarrow> ('sv, 'x) world" where
  "write_text path text w = w\<lparr>files := (files w)(path \<mapsto> Text text), writes := writes w @ [path]\<rparr>"

subsection \<open>The class\<close>

record 'c vp_report =
  train_data :: "(nat, 'c) frame"
  id_col :: string
  label :: string
  report_folder :: string
  model_path :: string
  vp_report_path :: string
  eval_metric :: string
  train_id :: "'c list list"
  original_features :: "string list"
  vp_report_lines :: "string list"

text \<open>
  \<^verbatim>\<open>
  def __init__(self, train_data_path, id_col, label, report_folder):
      self.train_data = pd.read_csv(train_data_path)
      ...
      self.train_id = self.train_data[self.id_col]
      self.train_data.drop(columns=[self.id_col], inplace=True)
      self.original_features = [col for col in self.train_data.columns if col != self.label]
      self.vp_report_lines = []
  \<close>
\<close>

definition init ::
  "('c, 'x, 'm, 'sv) env \<Rightarrow> string \<Rightarrow> string \<Rightarrow> string \<Rightarrow> string \<Rightarrow> py_error + 'c vp_report" where
  "init e train_data_path id_col' label' report_folder' =
     (case read_csv e train_data_path of Inl err \<Rightarrow> Inl err | Inr df \<Rightarrow>
     (case getitem df id_col' of Inl err \<Rightarrow> Inl err | Inr ids \<Rightarrow>
     (case drop_columns df id_col' of Inl err \<Rightarrow> Inl err | Inr df' \<Rightarrow>
        Inr \<lparr>train_data = df',
             id_col = id_col',
             label = label',
             report_folder = report_folder',
             model_path = os_path_join report_folder' ''models'',
             vp_report_path = os_path_join report_folder' ''vp_report.md'',
             eval_metric = ''mean_squared_error'',
             train_id = ids,
             original_features = filter (\<lambda>col. col \<noteq> label') (columns df'),
             vp_report_lines = []\<rparr>)))"

text \<open>\<^verbatim>\<open>unused_features = [f for f in self.original_features if f not in used_features]\<close>\<close>

definition unused_features :: "string list \<Rightarrow> string list \<Rightarrow> string list" where
  "unused_features original used = filter (\<lambda>f. f \<notin> set used) original"

text \<open>
  The list literal of \<^verbatim>\<open>generate_basic_part\<close> (source lines 68 to 120), as a function
  of the values that its f-strings and calls put into it.
\<close>

definition report_lines_literal ::
  "string \<Rightarrow> nat \<Rightarrow> nat \<Rightarrow> string \<Rightarrow> string \<Rightarrow> string \<Rightarrow> string list \<Rightarrow> string list \<Rightarrow> string
     \<Rightarrow> string list" where
  "report_lines_literal label' n_rows n_features importance_md shap_summary_plot_path
       shap_bar_plot_path used_features' unused_features' leaderboard_md =
     [''# AutoML <U+9810><U+6E2C><U+4EFB><U+52D9><U+5831><U+544A>'',
      '''',
      ''## <U+1F3AF> <U+9810><U+6E2C><U+76EE><U+6A19>'',
      ''- <U+9810><U+6E2C><U+6B04><U+4F4D><U+FF1A>**'' @ label' @ ''**'',
      ''- <U+8A13><U+7DF4><U+8CC7><U+6599><U+7B46><U+6578><U+FF1A>'' @ str_of_nat n_rows,
      ''- <U+539F><U+59CB><U+7279><U+5FB5><U+6578><U+91CF><U+FF1A>'' @ str_of_nat n_features,
      '''',
      ''## <U+7279><U+5FB5><U+5206><U+6790>'',
      ''### Top 30 <U+91CD><U+8981><U+7279><U+5FB5>'',
      importance_md,
      '''',
      ''| <U+6B04><U+4F4D> | <U+8AAA><U+660E> |'',
      ''|------|------|'',
      ''| importance | <U+7279><U+5FB5><U+91CD><U+8981><U+6027><U+5206><U+6578><U+FF0C><U+8868><U+793A><U+8A72><U+7279><U+5FB5><U+5C0D><U+6A21><U+578B><U+9810><U+6E2C><U+7684><U+5F71><U+97FF><U+7A0B><U+5EA6> |'',
      ''| stddev | <U+7279><U+5FB5><U+91CD><U+8981><U+6027><U+7684><U+6A19><U+6E96><U+5DEE><U+FF0C><U+8868><U+793A><U+4F30><U+8A08><U+7684><U+4E0D><U+78BA><U+5B9A><U+6027> |'',
      ''| p_value | <U+7D71><U+8A08><U+986F><U+8457><U+6027><U+6AA2><U+9A57><U+7684> p <U+503C> |'',
      ''| n | <U+7528><U+65BC><U+8A08><U+7B97><U+7684><U+91CD><U+8981><U+6A23><U+672C><U+6578> |'',
      ''| p99_high / p99_low | 99% <U+7F6E><U+4FE1><U+5340><U+9593><U+4E0A><U+4E0B><U+9650> |'',
      '''',
      ''> **<U+7F6E><U+4FE1><U+5340><U+9593><U+8AAA><U+660E>**<U+FF1A><U+7BC4><U+570D><U+5C0F><U+8868><U+793A><U+4F30><U+8A08><U+7CBE><U+78BA><U+FF1B><U+82E5><U+4E0D><U+5305><U+542B><U+96F6><U+FF0C><U+5247><U+5177><U+7D71><U+8A08><U+986F><U+8457><U+6027><U+3002>'',
      '''',
      ''### <U+1F9E0> SHAP <U+6A21><U+578B><U+89E3><U+91CB><U+FF08><U+57FA><U+65BC> LightGBM<U+FF09>'',
      ''#### 1. SHAP Summary Plot<U+FF08><U+9EDE><U+5716><U+FF09>'',
      ''![summary]('' @ shap_summary_plot_path @ '')'',
      '''',
      ''#### 2. SHAP Feature Importance<U+FF08><U+689D><U+72C0><U+5716><U+FF09>'',
      ''![bar]('' @ shap_bar_plot_path @ '')'',
      '''',
      ''> SHAP <U+53EF><U+8996><U+5316><U+5E6B><U+52A9><U+4E86><U+89E3><U+6BCF><U+500B><U+7279><U+5FB5><U+5C0D><U+9810><U+6E2C><U+7684><U+6B63><U+8CA0><U+5F71><U+97FF><U+8207><U+91CD><U+8981><U+7A0B><U+5EA6><U+3002>'',
      '''',
      ''## Baseline <U+6A21><U+578B><U+8868><U+73FE>'',
      ''### <U+6A21><U+578B><U+4F7F><U+7528><U+7279><U+5FB5>'',
      ''```'',
      str_join '', '' used_features',
      ''```'',
      '''',
      ''### <U+6A21><U+578B><U+672A><U+4F7F><U+7528><U+7279><U+5FB5>'',
      ''```'',
      str_join '', '' unused_features',
      ''```'',
      '''',
      ''### <U+6A21><U+578B> Baseline Leaderboard'',
      leaderboard_md,
      '''',
      ''| <U+6B04><U+4F4D> | <U+8AAA><U+660E> |'',
      ''|------|------|'',
      ''| model | <U+6A21><U+578B><U+540D><U+7A31> |'',
      ''| score_test / score_val | <U+8CA0><U+7684> RMSE<U+FF08><U+8D8A><U+9AD8><U+8D8A><U+597D><U+FF09> |'',
      ''| pred_time_* / fit_time | <U+9810><U+6E2C><U+8207><U+8A13><U+7DF4><U+8017><U+6642><U+FF08><U+79D2><U+FF09> |'',
      ''| stack_level | <U+6A21><U+578B><U+5806><U+758A><U+5C64><U+7D1A> |'',
      ''| can_infer | <U+662F><U+5426><U+53EF><U+7528><U+65BC><U+63A8><U+8AD6> |'']"

text \<open>The six lines appended after the literal (source lines 125 to 130).\<close>

definition recommendation_lines :: "string list \<Rightarrow> string list" where
  "recommendation_lines recommended_features =
     [''## <U+63A8><U+85A6><U+7279><U+5FB5>'',
      ''- <U+63A8><U+85A6><U+7279><U+5FB5><U+6578><U+91CF><U+FF1A>'' @ str_of_nat (length recommended_features),
      ''- <U+63A8><U+85A6><U+7279><U+5FB5><U+FF1A>'',
      ''  ```'',
      ''  '' @ str_join '', '' recommended_features,
      ''  ```'']"

text \<open>
  \<^verbatim>\<open>generate_basic_part\<close>, statement by statement. A collaborator that raises ends the
  method with that error; the world keeps what had been printed and written until then.
  The elements of the list literal are evaluated in order, after the plots. The result
  is the pair \<^verbatim>\<open>(report_lines, recommended_features)\<close>.
\<close>

definition generate_basic_part ::
  "('c, 'x, 'm, 'sv) env \<Rightarrow> 'c vp_report \<Rightarrow> ('sv, 'x) world
     \<Rightarrow> (py_error + string list \<times> string list) \<times> ('sv, 'x) world" where
  "generate_basic_part e self w =
     (case fit e (label self) (model_path self) (eval_metric self) (train_data self) of
        Inl err \<Rightarrow> (Inl err, w) | Inr predictor \<Rightarrow>
     (case leaderboard predictor (train_data self) of
        Inl err \<Rightarrow> (Inl err, w) | Inr leaderboard_df \<Rightarrow>
     (case feature_importance predictor (train_data self) of
        Inl err \<Rightarrow> (Inl err, w) | Inr feature_importance_df \<Rightarrow>
      let used_features = get_features predictor;
          unused = unused_features (original_features self) used_features
      in
     (case load_data_internal predictor ''train'' of
        Inl err \<Rightarrow> (Inl err, w) | Inr X \<Rightarrow>
     (case select_lightgbm (model_names predictor) of
        Inl err \<Rightarrow> (Inl err, w) | Inr lightgbm_model_name \<Rightarrow>
      let w1 = py_print (''<U+4F7F><U+7528> SHAP <U+7684><U+6A21><U+578B><U+FF1A>'' @ lightgbm_model_name) w
      in
     (case load_model predictor lightgbm_model_name of
        Inl err \<Rightarrow> (Inl err, w1) | Inr lgbm_model \<Rightarrow>
     (case shap_values e lgbm_model X of
        Inl err \<Rightarrow> (Inl err, w1) | Inr sv \<Rightarrow>
      let shap_summary_plot_path = os_path_join (report_folder self) ''shap_summary_plot.png'';
          w2 = plt_figure w1;
          w3 = summary_plot sv X Default_plot w2;
          w4 = plt_tight_layout w3;
          w5 = plt_savefig shap_summary_plot_path w4;
          shap_bar_plot_path = os_path_join (report_folder self) ''shap_bar_plot.png'';
          w6 = plt_figure w5;
          w7 = summary_plot sv X Bar_plot w6;
          w8 = plt_tight_layout w7;
          w9 = plt_savefig shap_bar_plot_path w8
      in
     (case to_markdown_named e True (head feature_importance_df 30) of
        Inl err \<Rightarrow> (Inl err, w9) | Inr importance_md \<Rightarrow>
     (case to_markdown_numbered e False leaderboard_df of
        Inl err \<Rightarrow> (Inl err, w9) | Inr leaderboard_md \<Rightarrow>
      let report_lines =
            report_lines_literal (label self) (len_frame (train_data self))
              (length (original_features self)) importance_md
              shap_summary_plot_path shap_bar_plot_path used_features unused leaderboard_md;
          recommended_features = recommend_features feature_importance_df top_k_default
      in (Inr (report_lines @ recommendation_lines recommended_features, recommended_features),
          w9))))))))))"

text \<open>
  \<^verbatim>\<open>
  def save_report(self):
      with open(self.vp_report_path, "w") as f:
          f.write("\n".join(self.vp_report_lines))
  \<close>
\<close>

definition save_report :: "'c vp_report \<Rightarrow> ('sv, 'x) world \<Rightarrow> ('sv, 'x) world" where
  "save_report self w =
     write_text (vp_report_path self) (str_join [CHR 0x0A] (vp_report_lines self)) w"

text \<open>
  \<^verbatim>\<open>
  def generate_report(self):
      print("Generating Report...")
      report_lines, recommended_features = self.generate_basic_part()
      self.vp_report_lines.extend(report_lines)
      self.save_report()
      print("Report Saved at:", self.vp_report_path)
  \<close>
  The result is the error or \<open>()\<close>, the object after the call, and the world after it.
\<close>

definition generate_report ::
  "('c, 'x, 'm, 'sv) env \<Rightarrow> 'c vp_report \<Rightarrow> ('sv, 'x) world
     \<Rightarrow> (py_error + unit) \<times> 'c vp_report \<times> ('sv, 'x) world" where
  "generate_report e self w =
     (let w1 = py_print ''Generating Report...'' w in
      (case generate_basic_part e self w1 of
        (Inl err, w2) \<Rightarrow> (Inl err, self, w2)
      | (Inr (report_lines, recommended_features), w2) \<Rightarrow>
          let self' = self\<lparr>vp_report_lines := vp_report_lines self @ report_lines\<rparr>;
              w3 = save_report self' w2;
              w4 = py_print (''Report Saved at: '' @ vp_report_path self') w3
          in (Inr (), self', w4)))"

text \<open>
  \<open>n\<close> calls of \<^verbatim>\<open>generate_report\<close> on the same object, one after the other; an
  exception ends the sequence.
\<close>

fun generate_report_times ::
  "nat \<Rightarrow> ('c, 'x, 'm, 'sv) env \<Rightarrow> 'c vp_report \<Rightarrow> ('sv, 'x) world
     \<Rightarrow> (py_error + unit) \<times> 'c vp_report \<times> ('sv, 'x) world" where
  "generate_report_times 0 e self w = (Inr (), self, w)"
| "generate_report_times (Suc n) e self w =
     (case generate_report e self w of
        (Inl err, self', w') \<Rightarrow> (Inl err, self', w')
      | (Inr u, self', w') \<Rightarrow> generate_report_times n e self' w')"

subsection \<open>The recommender on a store of objects\<close>

text \<open>
  To say what a call does to its argument, data frames are put in a store: a reference is
  a position in the list of objects. \<^verbatim>\<open>df.head(n)\<close> allocates the frame it returns,
  \<^verbatim>\<open>.index.tolist()\<close> reads it. A reference outside the store has no object.
\<close>

type_synonym 'c store = "(string, 'c) frame list"

definition head_at :: "'c store \<Rightarrow> nat \<Rightarrow> int \<Rightarrow> (nat \<times> 'c store) option" where
  "head_at st r n = (if r < length st then Some (length st, st @ [head (st ! r) n]) else None)"

definition index_tolist_at :: "'c store \<Rightarrow> nat \<Rightarrow> string list option" where
  "index_tolist_at st r = (if r < length st then Some (index (st ! r)) else None)"

definition recommend_features_at ::
  "'c store \<Rightarrow> nat \<Rightarrow> int \<Rightarrow> (string list \<times> 'c store) option" where
  "recommend_features_at st feature_importance_df top_k =
     (case head_at st feature_importance_df top_k of
        None \<Rightarrow> None
      | Some (top_ref, st') \<Rightarrow>
          (case index_tolist_at st' top_ref of
             None \<Rightarrow> None
           | Some importance_top \<Rightarrow> Some (importance_top, st')))"

subsection \<open>The document as the specification lists it\<close>

text \<open>
  The seven parts of the report in the order of the specification, each with the text
  that the code gives it: (1) title and target, (2) size and number of features,
  (3) importance table and the glossary of its columns, (4) the SHAP images and their
  prose, (5) the used and the unused features, (6) leaderboard and the glossary of its
  columns, (7) the recommended features and their number.
\<close>

definition code_block :: "string \<Rightarrow> string list" where
  "code_block body = [''```'', body, ''```'']"

definition title_section :: "string \<Rightarrow> string list" where
  "title_section target =
     [''# AutoML <U+9810><U+6E2C><U+4EFB><U+52D9><U+5831><U+544A>'',
      '''',
      ''## <U+1F3AF> <U+9810><U+6E2C><U+76EE><U+6A19>'',
      ''- <U+9810><U+6E2C><U+6B04><U+4F4D><U+FF1A>**'' @ target @ ''**'']"

definition statistics_section :: "nat \<Rightarrow> nat \<Rightarrow> string list" where
  "statistics_section n_rows n_features =
     [''- <U+8A13><U+7DF4><U+8CC7><U+6599><U+7B46><U+6578><U+FF1A>'' @ str_of_nat n_rows,
      ''- <U+539F><U+59CB><U+7279><U+5FB5><U+6578><U+91CF><U+FF1A>'' @ str_of_nat n_features,
      '''']"

definition importance_glossary :: "string list" where
  "importance_glossary =
     [''| <U+6B04><U+4F4D> | <U+8AAA><U+660E> |'',
      ''|------|------|'',
      ''| importance | <U+7279><U+5FB5><U+91CD><U+8981><U+6027><U+5206><U+6578><U+FF0C><U+8868><U+793A><U+8A72><U+7279><U+5FB5><U+5C0D><U+6A21><U+578B><U+9810><U+6E2C><U+7684><U+5F71><U+97FF><U+7A0B><U+5EA6> |'',
      ''| stddev | <U+7279><U+5FB5><U+91CD><U+8981><U+6027><U+7684><U+6A19><U+6E96><U+5DEE><U+FF0C><U+8868><U+793A><U+4F30><U+8A08><U+7684><U+4E0D><U+78BA><U+5B9A><U+6027> |'',
      ''| p_value | <U+7D71><U+8A08><U+986F><U+8457><U+6027><U+6AA2><U+9A57><U+7684> p <U+503C> |'',
      ''| n | <U+7528><U+65BC><U+8A08><U+7B97><U+7684><U+91CD><U+8981><U+6A23><U+672C><U+6578> |'',
      ''| p99_high / p99_low | 99% <U+7F6E><U+4FE1><U+5340><U+9593><U+4E0A><U+4E0B><U+9650> |'',
      '''',
      ''> **<U+7F6E><U+4FE1><U+5340><U+9593><U+8AAA><U+660E>**<U+FF1A><U+7BC4><U+570D><U+5C0F><U+8868><U+793A><U+4F30><U+8A08><U+7CBE><U+78BA><U+FF1B><U+82E5><U+4E0D><U+5305><U+542B><U+96F6><U+FF0C><U+5247><U+5177><U+7D71><U+8A08><U+986F><U+8457><U+6027><U+3002>'']"

definition importance_section :: "string \<Rightarrow> string list" where
  "importance_section top30_table =
     [''## <U+7279><U+5FB5><U+5206><U+6790>'',
      ''### Top 30 <U+91CD><U+8981><U+7279><U+5FB5>'',
      top30_table,
      ''''] @ importance_glossary @ ['''']"

definition shap_section :: "string \<Rightarrow> string \<Rightarrow> string list" where
  "shap_section summary_png bar_png =
     [''### <U+1F9E0> SHAP <U+6A21><U+578B><U+89E3><U+91CB><U+FF08><U+57FA><U+65BC> LightGBM<U+FF09>'',
      ''#### 1. SHAP Summary Plot<U+FF08><U+9EDE><U+5716><U+FF09>'',
      ''![summary]('' @ summary_png @ '')'',
      '''',
      ''#### 2. SHAP Feature Importance<U+FF08><U+689D><U+72C0><U+5716><U+FF09>'',
      ''![bar]('' @ bar_png @ '')'',
      '''',
      ''> SHAP <U+53EF><U+8996><U+5316><U+5E6B><U+52A9><U+4E86><U+89E3><U+6BCF><U+500B><U+7279><U+5FB5><U+5C0D><U+9810><U+6E2C><U+7684><U+6B63><U+8CA0><U+5F71><U+97FF><U+8207><U+91CD><U+8981><U+7A0B><U+5EA6><U+3002>'',
      '''']"

definition features_section :: "string list \<Rightarrow> string list \<Rightarrow> string list" where
  "features_section used unused =
     [''## Baseline <U+6A21><U+578B><U+8868><U+73FE>'',
      ''### <U+6A21><U+578B><U+4F7F><U+7528><U+7279><U+5FB5>'']
     @ code_block (str_join '', '' used)
     @ ['''',
        ''### <U+6A21><U+578B><U+672A><U+4F7F><U+7528><U+7279><U+5FB5>'']
     @ code_block (str_join '', '' unused)
     @ ['''']"

definition leaderboard_glossary :: "string list" where
  "leaderboard_glossary =
     [''| <U+6B04><U+4F4D> | <U+8AAA><U+660E> |'',
      ''|------|------|'',
      ''| model | <U+6A21><U+578B><U+540D><U+7A31> |'',
      ''| score_test / score_val | <U+8CA0><U+7684> RMSE<U+FF08><U+8D8A><U+9AD8><U+8D8A><U+597D><U+FF09> |'',
      ''| pred_time_* / fit_time | <U+9810><U+6E2C><U+8207><U+8A13><U+7DF4><U+8017><U+6642><U+FF08><U+79D2><U+FF09> |'',
      ''| stack_level | <U+6A21><U+578B><U+5806><U+758A><U+5C64><U+7D1A> |'',
      ''| can_infer | <U+662F><U+5426><U+53EF><U+7528><U+65BC><U+63A8><U+8AD6> |'']"

definition leaderboard_section :: "string \<Rightarrow> string list" where
  "leaderboard_section table =
     [''### <U+6A21><U+578B> Baseline Leaderboard'', table, ''''] @ leaderboard_glossary"

definition recommendation_section :: "string list \<Rightarrow> string list" where
  "recommendation_section recommended =
     [''## <U+63A8><U+85A6><U+7279><U+5FB5>'',
      ''- <U+63A8><U+85A6><U+7279><U+5FB5><U+6578><U+91CF><U+FF1A>'' @ str_of_nat (length recommended),
      ''- <U+63A8><U+85A6><U+7279><U+5FB5><U+FF1A>'',
      ''  ```'',
      ''  '' @ str_join '', '' recommended,
      ''  ```'']"

subsection \<open>Concrete inputs\<close>

text \<open>
  A table of two rows with an identifier, two features and a label; a predictor trained
  on it, with three sub-models; and the collaborators that return them.
\<close>

definition ex_table :: "(nat, int) frame" where
  "ex_table = \<lparr>index = [0, 1], columns = [''id'', ''x1'', ''x2'', ''y''],
               rows = [[1, 10, 20, 5], [2, 11, 21, 6]]\<rparr>"

definition ex_importance :: "(string, int) frame" where
  "ex_importance = \<lparr>index = [''x2'', ''x1''], columns = [''importance''], rows = [[7], [3]]\<rparr>"

definition ex_leaderboard :: "(nat, int) frame" where
  "ex_leaderboard = \<lparr>index = [0, 1, 2], columns = [''score_val''], rows = [[- 1], [- 2], [- 4]]\<rparr>"

definition ex_predictor :: "(int, nat, string) predictor" where
  "ex_predictor =
     \<lparr>leaderboard = (\<lambda>data. Inr ex_leaderboard),
      feature_importance = (\<lambda>data. Inr ex_importance),
      get_features = [''x1'', ''x2''],
      load_data_internal = (\<lambda>split. Inr 7),
      model_names = [''KNeighborsUnif'', ''LightGBMXT'', ''LightGBM'', ''CatBoost''],
      load_model = (\<lambda>name. Inr name)\<rparr>"

text \<open>A predictor whose internal features include one derived from the column \<open>x2\<close>.\<close>

definition ex_predictor_derived :: "(int, nat, string) predictor" where
  "ex_predictor_derived = ex_predictor\<lparr>get_features := [''x1'', ''x2.year'']\<rparr>"

definition ex_env :: "(int, nat, string, nat) env" where
  "ex_env =
     \<lparr>read_csv = (\<lambda>path. Inr ex_table),
      fit = (\<lambda>label' path metric data. Inr ex_predictor),
      shap_values = (\<lambda>model X. Inr (X + 1)),
      to_markdown_named = (\<lambda>with_index df. Inr ''| importance |''),
      to_markdown_numbered = (\<lambda>with_index df. Inr ''| leaderboard |'')\<rparr>"

definition ex_self :: "int vp_report" where
  "ex_self =
     \<lparr>train_data = \<lparr>index = [0, 1], columns = [''x1'', ''x2'', ''y''],
                     rows = [[10, 20, 5], [11, 21, 6]]\<rparr>,
      id_col = ''id'',
      label = ''y'',
      report_folder = ''out'',
      model_path = ''out/models'',
      vp_report_path = ''out/vp_report.md'',
      eval_metric = ''mean_squared_error'',
      train_id = [[1], [2]],
      original_features = [''x1'', ''x2''],
      vp_report_lines = []\<rparr>"

definition ex_world :: "(nat, nat) world" where
  "ex_world = \<lparr>stdout = [], figure = [], files = Map.empty, writes = []\<rparr>"

text \<open>A table of ten features and its importance table, for the default \<open>top_k\<close>.\<close>

definition ex_ten :: "(string, int) frame" where
  "ex_ten =
     \<lparr>index = [''f0'', ''f1'', ''f2'', ''f3'', ''f4'', ''f5'', ''f6'', ''f7'', ''f8'', ''f9''],
      columns = [''importance''],
      rows = [[10], [9], [8], [7], [6], [5], [4], [3], [2], [1]]\<rparr>"

text \<open>A predictor without a LightGBM sub-model, and collaborators that train it.\<close>

definition ex_predictor_no_lightgbm :: "(int, nat, string) predictor" where
  "ex_predictor_no_lightgbm = ex_predictor\<lparr>model_names := [''KNeighborsUnif'', ''CatBoost'']\<rparr>"

definition ex_env_no_lightgbm :: "(int, nat, string, nat) env" where
  "ex_env_no_lightgbm = ex_env\<lparr>fit := (\<lambda>label' path metric data. Inr ex_predictor_no_lightgbm)\<rparr>"

text \<open>The lines and the world that one run on these inputs produces.\<close>

definition ex_lines :: "string list" where
  "ex_lines =
     report_lines_literal ''y'' 2 2 ''| importance |'' ''out/shap_summary_plot.png''
       ''out/shap_bar_plot.png'' [''x1'', ''x2''] [] ''| leaderboard |''
     @ recommendation_lines [''x2'', ''x1'']"

definition ex_world_plots :: "(nat, nat) world" where
  "ex_world_plots =
     \<lparr>stdout = [''<U+4F7F><U+7528> SHAP <U+7684><U+6A21><U+578B><U+FF1A>LightGBMXT''],
      figure = [Summary_plot 8 7 Bar_plot, Tight_layout],
      files = [''out/shap_summary_plot.png'' \<mapsto> Png [Summary_plot 8 7 Default_plot, Tight_layout],
               ''out/shap_bar_plot.png'' \<mapsto> Png [Summary_plot 8 7 Bar_plot, Tight_layout]],
      writes = [''out/shap_summary_plot.png'', ''out/shap_bar_plot.png'']\<rparr>"


text \<open>A store with two importance tables.\<close>

definition ex_store :: "int store" where
  "ex_store = [ex_importance, ex_ten]"

section \<open>Properties\<close>

subsection \<open>Strings, slices and the generator\<close>

lemma str_contains_sublist: "str_contains sub s = sublist sub s"
  by (induction s) (simp_all add: sublist_Cons_right)

lemma next_where_none: "(\<forall>m\<in>set ms. \<not> P m) \<Longrightarrow> next_where P ms = Inl StopIteration"
  by (induction ms) simp_all

lemma next_where_first:
  "(\<forall>x\<in>set pre. \<not> P x) \<Longrightarrow> P m \<Longrightarrow> next_where P (pre @ m # post) = Inr m"
  by (induction pre) simp_all

subsection \<open>The feature recommender\<close>

text \<open>
  C2. For an importance table with \<open>F\<close> rows and a number \<open>top_k \<ge> 0\<close> of features
  asked for, \<open>recommend_features\<close> returns the first \<open>min top_k F\<close> row labels of the
  table, in the order of the table and unchanged, so exactly \<open>min top_k F\<close> names; with
  the default \<open>top_k = 30\<close> these are the first \<open>min 30 F\<close>. The order of the rows is
  the one the table has: the function does not sort.
\<close>

theorem recommend_features_first_min:
  "0 \<le> top_k \<Longrightarrow>
     recommend_features df top_k = take (min (nat top_k) (len_frame df)) (index df)
   \<and> length (recommend_features df top_k) = min (nat top_k) (len_frame df)
   \<and> recommend_features df top_k_default = take (min 30 (len_frame df)) (index df)"
  by (simp add: recommend_features_def head_def slice_to_def len_frame_def top_k_default_def
        min_def)

text \<open>With ten features and \<open>top_k = 30\<close> the ten names come back, not thirty.\<close>

theorem recommend_features_first_min_witness:
  "(0::int) \<le> 30 \<and> len_frame ex_ten = 10
   \<and> recommend_features ex_ten 30
       = [''f0'', ''f1'', ''f2'', ''f3'', ''f4'', ''f5'', ''f6'', ''f7'', ''f8'', ''f9'']
   \<and> length (recommend_features ex_ten 30) = 10"
  using recommend_features_first_min [of 30 ex_ten]
  by (simp add: ex_ten_def len_frame_def)

subsection \<open>Paths\<close>

lemma os_path_join_relative:
  "take 1 b \<noteq> ''/'' \<Longrightarrow>
     os_path_join a b = (if a = [] \<or> last a = CHR ''/'' then a else a @ ''/'') @ b"
  by (simp add: os_path_join_def)

lemma os_path_join_eq_iff:
  "take 1 b \<noteq> ''/'' \<Longrightarrow> take 1 c \<noteq> ''/'' \<Longrightarrow> os_path_join a b = os_path_join a c \<longleftrightarrow> b = c"
  by (simp add: os_path_join_relative)

lemma os_path_join_prefix: "take 1 b \<noteq> ''/'' \<Longrightarrow> prefix a (os_path_join a b)"
  by (simp add: os_path_join_relative)

lemma report_path_not_image:
  "os_path_join a ''vp_report.md'' \<noteq> os_path_join a ''shap_summary_plot.png''"
  "os_path_join a ''vp_report.md'' \<noteq> os_path_join a ''shap_bar_plot.png''"
  "os_path_join a ''shap_summary_plot.png'' \<noteq> os_path_join a ''shap_bar_plot.png''"
  by (simp_all add: os_path_join_eq_iff)

subsection \<open>What the constructor and the methods do to the object\<close>

lemma init_success:
  assumes "init e path idc lab folder = Inr self"
  obtains df where "read_csv e path = Inr df" "idc \<in> set (columns df)"
    "self = \<lparr>train_data = df\<lparr>columns := filter (\<lambda>c. c \<noteq> idc) (columns df),
                              rows := map (cells_where (\<lambda>c. c \<noteq> idc) (columns df)) (rows df)\<rparr>,
             id_col = idc, label = lab, report_folder = folder,
             model_path = os_path_join folder ''models'',
             vp_report_path = os_path_join folder ''vp_report.md'',
             eval_metric = ''mean_squared_error'',
             train_id = map (cells_where (\<lambda>c. c = idc) (columns df)) (rows df),
             original_features = filter (\<lambda>col. col \<noteq> lab) (filter (\<lambda>c. c \<noteq> idc) (columns df)),
             vp_report_lines = []\<rparr>"
  using assms unfolding init_def getitem_def drop_columns_def
  by (auto split: sum.splits if_splits)

lemma generate_report_fields:
  assumes "generate_report e self w = (res, self', w')"
  shows "\<exists>new. self' = self\<lparr>vp_report_lines := vp_report_lines self @ new\<rparr>"
  using assms unfolding generate_report_def
  by (auto simp: Let_def split: prod.splits sum.splits intro: exI [of _ "[]"])

lemma generate_report_times_fields:
  "generate_report_times n e self w = (res, self', w') \<Longrightarrow>
     \<exists>new. self' = self\<lparr>vp_report_lines := vp_report_lines self @ new\<rparr>"
proof (induction n arbitrary: self w)
  case 0
  then show ?case by (auto intro: exI [of _ "[]"])
next
  case (Suc n)
  obtain r1 s1 w1 where step: "generate_report e self w = (r1, s1, w1)"
    by (cases "generate_report e self w") auto
  from generate_report_fields [OF step] obtain new1 where
    s1: "s1 = self\<lparr>vp_report_lines := vp_report_lines self @ new1\<rparr>" by blast
  show ?case
  proof (cases r1)
    case (Inl err)
    with Suc.prems step have "self' = s1" by simp
    with s1 show ?thesis by blast
  next
    case (Inr u)
    with Suc.prems step have "generate_report_times n e s1 w1 = (res, self', w')" by simp
    from Suc.IH [OF this] obtain new2 where
      "self' = s1\<lparr>vp_report_lines := vp_report_lines s1 @ new2\<rparr>" by blast
    with s1 have "self' = self\<lparr>vp_report_lines := vp_report_lines self @ (new1 @ new2)\<rparr>"
      by simp
    then show ?thesis by blast
  qed
qed

lemma set_unused_features: "set (unused_features original used) = set original - set used"
  by (auto simp: unused_features_def)

subsection \<open>The concrete inputs, evaluated\<close>

lemma ex_read_csv: "read_csv ex_env ''train.csv'' = Inr ex_table"
  by (simp add: ex_env_def)

lemma ex_init: "init ex_env ''train.csv'' ''id'' ''y'' ''out'' = Inr ex_self"
  by (simp add: init_def ex_env_def ex_table_def ex_self_def getitem_def drop_columns_def
        cells_where_def os_path_join_def)

subsection \<open>The data set loader\<close>

text \<open>
  C7. After construction the feature set \<open>original_features\<close> is the list of the columns
  of the loaded table that are neither the identifier nor the label, in the order of the
  table: the identifier is not in it, the label is not in it, and the identifier is no
  longer a column of the training data. It is computed by the constructor and no later
  operation changes it: after any number of calls of \<open>generate_report\<close>, with any
  collaborators and from any world, it is the same list.
\<close>

theorem feature_set_fixed_at_load:
  assumes "read_csv e path = Inr df" and "init e path idc lab folder = Inr self"
  shows "original_features self = filter (\<lambda>c. c \<noteq> idc \<and> c \<noteq> lab) (columns df)
       \<and> idc \<notin> set (original_features self)
       \<and> lab \<notin> set (original_features self)
       \<and> idc \<notin> set (columns (train_data self))
       \<and> original_features (fst (snd (generate_report_times n e' self w))) = original_features self"
proof -
  from assms(2) obtain df' where "read_csv e path = Inr df'"
      and "original_features self = filter (\<lambda>col. col \<noteq> lab) (filter (\<lambda>c. c \<noteq> idc) (columns df'))"
      and "columns (train_data self) = filter (\<lambda>c. c \<noteq> idc) (columns df')"
    by (rule init_success) simp
  with assms(1)
  have self: "original_features self = filter (\<lambda>col. col \<noteq> lab) (filter (\<lambda>c. c \<noteq> idc) (columns df))"
     and cols: "columns (train_data self) = filter (\<lambda>c. c \<noteq> idc) (columns df)"
    by simp_all
  have eq: "original_features self = filter (\<lambda>c. c \<noteq> idc \<and> c \<noteq> lab) (columns df)"
    unfolding self by (simp add: conj_commute)
  obtain res self' w' where run: "generate_report_times n e' self w = (res, self', w')"
    by (cases "generate_report_times n e' self w") auto
  from generate_report_times_fields [OF run] obtain new where
    "self' = self\<lparr>vp_report_lines := vp_report_lines self @ new\<rparr>" by blast
  then have "original_features self' = original_features self" by simp
  with run have "original_features (fst (snd (generate_report_times n e' self w))) = original_features self"
    by simp
  with eq cols show ?thesis by simp
qed

theorem feature_set_fixed_at_load_witness:
  "read_csv ex_env ''train.csv'' = Inr ex_table
   \<and> init ex_env ''train.csv'' ''id'' ''y'' ''out'' = Inr ex_self
   \<and> original_features ex_self = [''x1'', ''x2'']
   \<and> original_features (fst (snd (generate_report_times 2 ex_env ex_self ex_world))) = [''x1'', ''x2'']"
proof -
  have c: "original_features ex_self = [''x1'', ''x2'']" by (simp add: ex_self_def)
  have d: "original_features (fst (snd (generate_report_times 2 ex_env ex_self ex_world)))
             = original_features ex_self"
    by (rule feature_set_fixed_at_load [OF ex_read_csv ex_init, of 2 ex_env ex_world,
          THEN conjunct2, THEN conjunct2, THEN conjunct2, THEN conjunct2])
  show ?thesis by (intro conjI) (simp_all only: ex_read_csv ex_init c d)
qed

text \<open>
  C1, as the code has it. The feature set has exactly as many entries as the loaded table
  has columns other than the identifier and the label. The unused features are the
  features of the feature set that the predictor does not list as used, so the two lists
  never share a name and together they cover the feature set and every used name: they
  partition the feature set exactly when every name the predictor lists as used is a
  name of the feature set. The code does not restrict the predictor's list to the
  feature set.
\<close>

theorem used_unused_cover_feature_set:
  assumes "read_csv e path = Inr df" and "init e path idc lab folder = Inr self"
  shows "length (original_features self) = length (filter (\<lambda>c. c \<noteq> idc \<and> c \<noteq> lab) (columns df))
       \<and> set used \<inter> set (unused_features (original_features self) used) = {}
       \<and> set used \<union> set (unused_features (original_features self) used)
           = set (original_features self) \<union> set used
       \<and> (set used \<subseteq> set (original_features self) \<longrightarrow>
            set used \<union> set (unused_features (original_features self) used)
              = set (original_features self))"
proof -
  from assms(2) obtain df' where "read_csv e path = Inr df'"
      and "original_features self = filter (\<lambda>col. col \<noteq> lab) (filter (\<lambda>c. c \<noteq> idc) (columns df'))"
    by (rule init_success) simp
  with assms(1)
  have "original_features self = filter (\<lambda>c. c \<noteq> idc \<and> c \<noteq> lab) (columns df)"
    by (simp add: conj_commute)
  then have len: "length (original_features self)
                   = length (filter (\<lambda>c. c \<noteq> idc \<and> c \<noteq> lab) (columns df))"
    by simp
  show ?thesis
    unfolding set_unused_features using len by blast
qed

theorem used_unused_cover_feature_set_witness:
  "read_csv ex_env ''train.csv'' = Inr ex_table
   \<and> init ex_env ''train.csv'' ''id'' ''y'' ''out'' = Inr ex_self
   \<and> set [''x2''] \<subseteq> set (original_features ex_self)
   \<and> length (original_features ex_self) = 2
   \<and> unused_features (original_features ex_self) [''x2''] = [''x1'']
   \<and> set [''x2''] \<union> set (unused_features (original_features ex_self) [''x2''])
       = set (original_features ex_self)"
proof -
  note t = used_unused_cover_feature_set [OF ex_read_csv ex_init, of "[''x2'']"]
  have sub: "set [''x2''] \<subseteq> set (original_features ex_self)"
    by (simp add: ex_self_def)
  have len: "length (original_features ex_self) = 2"
    using t [THEN conjunct1] by (simp add: ex_table_def)
  have un: "unused_features (original_features ex_self) [''x2''] = [''x1'']"
    by (simp add: unused_features_def ex_self_def)
  have part: "set [''x2''] \<union> set (unused_features (original_features ex_self) [''x2''])
       = set (original_features ex_self)"
    using t [THEN conjunct2, THEN conjunct2, THEN conjunct2] sub by (rule mp)
  show ?thesis
    by (intro conjI) (rule ex_read_csv ex_init sub len un part)+
qed

text \<open>
  C1 as stated fails when the predictor lists a feature that is not a column of the
  table: with the used features \<open>x1\<close> and \<open>x2.year\<close> on the table with the features
  \<open>x1\<close> and \<open>x2\<close>, the used and the unused features together are not the feature set.
\<close>

theorem used_features_outside_feature_set:
  "init ex_env ''train.csv'' ''id'' ''y'' ''out'' = Inr ex_self
   \<and> get_features ex_predictor_derived = [''x1'', ''x2.year'']
   \<and> set (get_features ex_predictor_derived)
         \<union> set (unused_features (original_features ex_self) (get_features ex_predictor_derived))
       \<noteq> set (original_features ex_self)"
proof -
  have used: "get_features ex_predictor_derived = [''x1'', ''x2.year'']"
    by (simp add: ex_predictor_derived_def)
  have inside: "''x2.year'' \<in> set (get_features ex_predictor_derived)
         \<union> set (unused_features (original_features ex_self) (get_features ex_predictor_derived))"
    by (simp add: used)
  have outside: "''x2.year'' \<notin> set (original_features ex_self)"
    by (simp add: ex_self_def)
  from inside outside
  have "set (get_features ex_predictor_derived)
         \<union> set (unused_features (original_features ex_self) (get_features ex_predictor_derived))
       \<noteq> set (original_features ex_self)"
    by metis
  with ex_init used show ?thesis by (intro conjI)
qed

text \<open>
  C4, as the code has it. When the identifier column is absent from the loaded table the
  constructor fails with \<^verbatim>\<open>KeyError\<close>; when it is present the constructor succeeds,
  whatever the label is: the constructor never looks the label up. The constructor does
  not train: its result does not depend on \<open>fit\<close>.
\<close>

theorem init_fails_without_identifier:
  assumes "read_csv e path = Inr df"
  shows "(idc \<notin> set (columns df) \<longrightarrow> init e path idc lab folder = Inl (KeyError idc))
       \<and> (idc \<in> set (columns df) \<longrightarrow> (\<exists>self. init e path idc lab folder = Inr self))
       \<and> init (e\<lparr>fit := f\<rparr>) path idc lab folder = init e path idc lab folder"
  using assms by (simp add: init_def getitem_def drop_columns_def)

theorem init_fails_without_identifier_witness:
  "read_csv ex_env ''train.csv'' = Inr ex_table
   \<and> ''key'' \<notin> set (columns ex_table)
   \<and> init ex_env ''train.csv'' ''key'' ''y'' ''out'' = Inl (KeyError ''key'')
   \<and> ''id'' \<in> set (columns ex_table)
   \<and> (\<exists>self. init ex_env ''train.csv'' ''id'' ''y'' ''out'' = Inr self)"
proof -
  have absent: "''key'' \<notin> set (columns ex_table)" by (simp add: ex_table_def)
  have present: "''id'' \<in> set (columns ex_table)" by (simp add: ex_table_def)
  note t1 = init_fails_without_identifier [OF ex_read_csv, where idc = "''key''" and lab = "''y''"
      and folder = "''out''"]
  note t2 = init_fails_without_identifier [OF ex_read_csv, where idc = "''id''" and lab = "''y''"
      and folder = "''out''"]
  have "init ex_env ''train.csv'' ''key'' ''y'' ''out'' = Inl (KeyError ''key'')"
    using t1 [THEN conjunct1] absent by (rule mp)
  moreover have "\<exists>self. init ex_env ''train.csv'' ''id'' ''y'' ''out'' = Inr self"
    using t2 [THEN conjunct2, THEN conjunct1] present by (rule mp)
  ultimately show ?thesis using absent present ex_read_csv by (intro conjI)
qed

text \<open>
  C4 as stated fails for the label: on the table with the columns \<open>id\<close>, \<open>x1\<close>, \<open>x2\<close>
  and \<open>y\<close>, the constructor called with the label \<open>target\<close> does not fail.
\<close>

theorem init_succeeds_without_label:
  "''target'' \<notin> set (columns ex_table)
   \<and> read_csv ex_env ''train.csv'' = Inr ex_table
   \<and> \<not> isl (init ex_env ''train.csv'' ''id'' ''target'' ''out'')"
  by (simp add: init_def ex_env_def ex_table_def getitem_def drop_columns_def)

subsection \<open>What one run of \<open>generate_basic_part\<close> returns and writes\<close>

lemmas world_ops = py_print_def plt_figure_def summary_plot_def plt_tight_layout_def
  plt_savefig_def write_text_def

lemma generate_basic_part_success:
  assumes "generate_basic_part e self w = (Inr r, w')"
  obtains predictor leaderboard_df fi X name model sv importance_md leaderboard_md where
    "fit e (label self) (model_path self) (eval_metric self) (train_data self) = Inr predictor"
    "leaderboard predictor (train_data self) = Inr leaderboard_df"
    "feature_importance predictor (train_data self) = Inr fi"
    "load_data_internal predictor ''train'' = Inr X"
    "select_lightgbm (model_names predictor) = Inr name"
    "load_model predictor name = Inr model"
    "shap_values e model X = Inr sv"
    "to_markdown_named e True (head fi 30) = Inr importance_md"
    "to_markdown_numbered e False leaderboard_df = Inr leaderboard_md"
    "r = (report_lines_literal (label self) (len_frame (train_data self))
            (length (original_features self)) importance_md
            (os_path_join (report_folder self) ''shap_summary_plot.png'')
            (os_path_join (report_folder self) ''shap_bar_plot.png'')
            (get_features predictor)
            (unused_features (original_features self) (get_features predictor))
            leaderboard_md
          @ recommendation_lines (recommend_features fi top_k_default),
          recommend_features fi top_k_default)"
    "stdout w' = stdout w @ [''<U+4F7F><U+7528> SHAP <U+7684><U+6A21><U+578B><U+FF1A>'' @ name]"
    "files w' = (files w)
       (os_path_join (report_folder self) ''shap_summary_plot.png''
          \<mapsto> Png [Summary_plot sv X Default_plot, Tight_layout],
        os_path_join (report_folder self) ''shap_bar_plot.png''
          \<mapsto> Png [Summary_plot sv X Bar_plot, Tight_layout])"
    "writes w' = writes w @ [os_path_join (report_folder self) ''shap_summary_plot.png'',
                            os_path_join (report_folder self) ''shap_bar_plot.png'']"
  using assms unfolding generate_basic_part_def
  by (auto simp: Let_def world_ops split: sum.splits)


lemma generate_basic_part_result:
  "fst (generate_basic_part e (self\<lparr>vp_report_lines := buffer\<rparr>) w1) = fst (generate_basic_part e self w2)"
  unfolding generate_basic_part_def
  by (simp add: Let_def split: sum.splits)

lemma generate_basic_part_no_model:
  assumes "fit e (label self) (model_path self) (eval_metric self) (train_data self) = Inr predictor"
    and "leaderboard predictor (train_data self) = Inr leaderboard_df"
    and "feature_importance predictor (train_data self) = Inr fi"
    and "load_data_internal predictor ''train'' = Inr X"
    and "select_lightgbm (model_names predictor) = Inl err"
  shows "generate_basic_part e self w = (Inl err, w)"
  unfolding generate_basic_part_def using assms by (simp add: Let_def)

subsection \<open>The model selector\<close>

text \<open>
  C3. When at least one of the names returned by \<open>model_names\<close> contains
  \<^verbatim>\<open>LightGBM\<close>, the selector returns the first such name in the order of the list: no
  name before it contains \<^verbatim>\<open>LightGBM\<close>. When no name does, the selector raises
  \<^verbatim>\<open>StopIteration\<close>, and a run of \<open>generate_report\<close> whose earlier stages succeeded
  ends with that exception: nothing is skipped, and neither the object nor any file is
  changed.
\<close>

theorem select_lightgbm_first_or_error:
  "((\<exists>m\<in>set names. sublist ''LightGBM'' m) \<longrightarrow>
      (\<exists>pre m post. names = pre @ m # post \<and> (\<forall>x\<in>set pre. \<not> sublist ''LightGBM'' x)
         \<and> sublist ''LightGBM'' m \<and> select_lightgbm names = Inr m))
   \<and> ((\<forall>m\<in>set names. \<not> sublist ''LightGBM'' m) \<longrightarrow> select_lightgbm names = Inl StopIteration)
   \<and> (fit e (label self) (model_path self) (eval_metric self) (train_data self) = Inr predictor
        \<and> leaderboard predictor (train_data self) = Inr leaderboard_df
        \<and> feature_importance predictor (train_data self) = Inr fi
        \<and> load_data_internal predictor ''train'' = Inr X
        \<and> model_names predictor = names
        \<and> (\<forall>m\<in>set names. \<not> sublist ''LightGBM'' m)
      \<longrightarrow> generate_report e self w
            = (Inl StopIteration, self, py_print ''Generating Report...'' w))"
proof (intro conjI impI)
  assume "\<exists>m\<in>set names. sublist ''LightGBM'' m"
  then obtain pre m post where split: "names = pre @ m # post" "sublist ''LightGBM'' m"
      "\<forall>x\<in>set pre. \<not> sublist ''LightGBM'' x"
    using split_list_first_prop [of names "sublist ''LightGBM''"] by blast
  then have "select_lightgbm names = Inr m"
    unfolding select_lightgbm_def
    by (simp only: split(1)) (rule next_where_first, simp_all add: str_contains_sublist)
  with split show "\<exists>pre m post. names = pre @ m # post \<and> (\<forall>x\<in>set pre. \<not> sublist ''LightGBM'' x)
         \<and> sublist ''LightGBM'' m \<and> select_lightgbm names = Inr m"
    by blast
next
  assume "\<forall>m\<in>set names. \<not> sublist ''LightGBM'' m"
  then show "select_lightgbm names = Inl StopIteration"
    unfolding select_lightgbm_def by (intro next_where_none) (simp add: str_contains_sublist)
next
  assume a: "fit e (label self) (model_path self) (eval_metric self) (train_data self) = Inr predictor
        \<and> leaderboard predictor (train_data self) = Inr leaderboard_df
        \<and> feature_importance predictor (train_data self) = Inr fi
        \<and> load_data_internal predictor ''train'' = Inr X
        \<and> model_names predictor = names
        \<and> (\<forall>m\<in>set names. \<not> sublist ''LightGBM'' m)"
  then have stop: "select_lightgbm (model_names predictor) = Inl StopIteration"
    unfolding select_lightgbm_def by (intro next_where_none) (simp add: str_contains_sublist)
  from a have f1: "fit e (label self) (model_path self) (eval_metric self) (train_data self) = Inr predictor"
    and f2: "leaderboard predictor (train_data self) = Inr leaderboard_df"
    and f3: "feature_importance predictor (train_data self) = Inr fi"
    and f4: "load_data_internal predictor ''train'' = Inr X"
    by simp_all
  have "generate_basic_part e self (py_print ''Generating Report...'' w)
                = (Inl StopIteration, py_print ''Generating Report...'' w)"
    by (rule generate_basic_part_no_model [OF f1 f2 f3 f4 stop])
  then show "generate_report e self w = (Inl StopIteration, self, py_print ''Generating Report...'' w)"
    by (simp add: generate_report_def)
qed

theorem select_lightgbm_first_or_error_witness:
  "model_names ex_predictor = [''KNeighborsUnif'', ''LightGBMXT'', ''LightGBM'', ''CatBoost'']
   \<and> select_lightgbm (model_names ex_predictor) = Inr ''LightGBMXT''
   \<and> model_names ex_predictor_no_lightgbm = [''KNeighborsUnif'', ''CatBoost'']
   \<and> select_lightgbm (model_names ex_predictor_no_lightgbm) = Inl StopIteration
   \<and> generate_report ex_env_no_lightgbm ex_self ex_world
       = (Inl StopIteration, ex_self, py_print ''Generating Report...'' ex_world)"
proof -
  have some: "\<exists>m\<in>set (model_names ex_predictor). sublist ''LightGBM'' m"
    by (simp add: ex_predictor_def str_contains_sublist [symmetric])
  have none: "\<forall>m\<in>set (model_names ex_predictor_no_lightgbm). \<not> sublist ''LightGBM'' m"
    by (simp add: ex_predictor_no_lightgbm_def str_contains_sublist [symmetric])
  note t1 = select_lightgbm_first_or_error [where names = "model_names ex_predictor"]
  note t2 = select_lightgbm_first_or_error [where names = "model_names ex_predictor_no_lightgbm"
      and e = ex_env_no_lightgbm and self = ex_self and predictor = ex_predictor_no_lightgbm
      and leaderboard_df = ex_leaderboard and fi = ex_importance and X = 7 and w = ex_world]
  from t1 [THEN conjunct1] some
  have "\<exists>pre m post. model_names ex_predictor = pre @ m # post
          \<and> (\<forall>x\<in>set pre. \<not> sublist ''LightGBM'' x)
          \<and> sublist ''LightGBM'' m \<and> select_lightgbm (model_names ex_predictor) = Inr m"
    by (rule mp)
  then have first: "select_lightgbm (model_names ex_predictor) = Inr ''LightGBMXT''"
    by (simp add: select_lightgbm_def ex_predictor_def)
  from t2 [THEN conjunct2, THEN conjunct1] none
  have stop: "select_lightgbm (model_names ex_predictor_no_lightgbm) = Inl StopIteration"
    by (rule mp)
  have stages: "fit ex_env_no_lightgbm (label ex_self) (model_path ex_self) (eval_metric ex_self)
           (train_data ex_self) = Inr ex_predictor_no_lightgbm
        \<and> leaderboard ex_predictor_no_lightgbm (train_data ex_self) = Inr ex_leaderboard
        \<and> feature_importance ex_predictor_no_lightgbm (train_data ex_self) = Inr ex_importance
        \<and> load_data_internal ex_predictor_no_lightgbm ''train'' = Inr 7
        \<and> model_names ex_predictor_no_lightgbm = model_names ex_predictor_no_lightgbm
        \<and> (\<forall>m\<in>set (model_names ex_predictor_no_lightgbm). \<not> sublist ''LightGBM'' m)"
    using none by (simp add: ex_env_no_lightgbm_def ex_predictor_no_lightgbm_def ex_predictor_def)
  from t2 [THEN conjunct2, THEN conjunct2] stages
  have run: "generate_report ex_env_no_lightgbm ex_self ex_world
       = (Inl StopIteration, ex_self, py_print ''Generating Report...'' ex_world)"
    by (rule mp)
  have names: "model_names ex_predictor = [''KNeighborsUnif'', ''LightGBMXT'', ''LightGBM'', ''CatBoost'']"
    "model_names ex_predictor_no_lightgbm = [''KNeighborsUnif'', ''CatBoost'']"
    by (simp_all add: ex_predictor_def ex_predictor_no_lightgbm_def)
  show ?thesis
    by (intro conjI) (rule names first stop run)+
qed

subsection \<open>One call of \<open>generate_report\<close>\<close>

lemma generate_report_Inr:
  assumes "generate_basic_part e self (py_print ''Generating Report...'' w) = (Inr (lines, rec), w2)"
  shows "generate_report e self w
           = (Inr (), self\<lparr>vp_report_lines := vp_report_lines self @ lines\<rparr>,
              py_print (''Report Saved at: '' @ vp_report_path self)
                (save_report (self\<lparr>vp_report_lines := vp_report_lines self @ lines\<rparr>) w2))"
  using assms by (simp add: generate_report_def Let_def)

lemma generate_report_Inl:
  assumes "generate_basic_part e self (py_print ''Generating Report...'' w) = (Inl err, w2)"
  shows "generate_report e self w = (Inl err, self, w2)"
  using assms by (simp add: generate_report_def Let_def)

lemma generate_basic_part_world:
  "fst (generate_basic_part e self w1) = fst (generate_basic_part e self w2)"
  using generate_basic_part_result [where e = e and self = self and buffer = "vp_report_lines self"
      and ?w1.0 = w1 and ?w2.0 = w2] by simp

lemma generate_report_success:
  assumes "fst (generate_basic_part e self w0) = Inr (lines, rec)"
  shows "\<exists>w'. generate_report e self w
               = (Inr (), self\<lparr>vp_report_lines := vp_report_lines self @ lines\<rparr>, w')
            \<and> files w' (vp_report_path self)
                = Some (Text (str_join [CHR 0x0A] (vp_report_lines self @ lines)))"
proof -
  let ?w1 = "py_print ''Generating Report...'' w"
  from assms have "fst (generate_basic_part e self ?w1) = Inr (lines, rec)"
    by (simp add: generate_basic_part_world [of e self ?w1 w0])
  then obtain w2 where "generate_basic_part e self ?w1 = (Inr (lines, rec), w2)"
    by (cases "generate_basic_part e self ?w1") auto
  from generate_report_Inr [OF this] show ?thesis
    by (simp add: py_print_def save_report_def write_text_def)
qed



subsection \<open>The run on the concrete inputs\<close>

lemma ex_generate_basic_part:
  "generate_basic_part ex_env ex_self ex_world = (Inr (ex_lines, [''x2'', ''x1'']), ex_world_plots)"
  by (simp add: generate_basic_part_def ex_env_def ex_self_def ex_world_def ex_predictor_def
        ex_importance_def ex_leaderboard_def ex_lines_def ex_world_plots_def Let_def world_ops
        select_lightgbm_def os_path_join_def len_frame_def unused_features_def
        recommend_features_def head_def slice_to_def top_k_default_def numeral_2_eq_2)

lemma ex_paths:
  "vp_report_path ex_self = ''out/vp_report.md''"
  "os_path_join (report_folder ex_self) ''vp_report.md'' = ''out/vp_report.md''"
  "vp_report_lines ex_self = []"
  by (simp_all add: ex_self_def os_path_join_def)


subsection \<open>The explainer\<close>

text \<open>
  C8. In every run that succeeds, the two SHAP images are drawn from the same attribution
  values and the same input matrix: the values are the ones computed for the selected
  sub-model on the internal training matrix, the summary plot is saved to
  \<^verbatim>\<open>shap_summary_plot.png\<close> and the bar chart to \<^verbatim>\<open>shap_bar_plot.png\<close>, each joined to the
  report folder, so each path depends on the report folder only and begins with it.
\<close>

theorem shap_plots_same_values:
  assumes "generate_basic_part e self w = (Inr r, w')"
  shows "\<exists>predictor name model X sv.
           fit e (label self) (model_path self) (eval_metric self) (train_data self) = Inr predictor
         \<and> load_data_internal predictor ''train'' = Inr X
         \<and> select_lightgbm (model_names predictor) = Inr name
         \<and> load_model predictor name = Inr model
         \<and> shap_values e model X = Inr sv
         \<and> files w' (os_path_join (report_folder self) ''shap_summary_plot.png'')
             = Some (Png [Summary_plot sv X Default_plot, Tight_layout])
         \<and> files w' (os_path_join (report_folder self) ''shap_bar_plot.png'')
             = Some (Png [Summary_plot sv X Bar_plot, Tight_layout])
         \<and> prefix (report_folder self) (os_path_join (report_folder self) ''shap_summary_plot.png'')
         \<and> prefix (report_folder self) (os_path_join (report_folder self) ''shap_bar_plot.png'')"
proof -
  from assms obtain predictor name model X sv where
    stages: "fit e (label self) (model_path self) (eval_metric self) (train_data self) = Inr predictor"
      "load_data_internal predictor ''train'' = Inr X"
      "select_lightgbm (model_names predictor) = Inr name"
      "load_model predictor name = Inr model"
      "shap_values e model X = Inr sv"
    and files: "files w' = (files w)
       (os_path_join (report_folder self) ''shap_summary_plot.png''
          \<mapsto> Png [Summary_plot sv X Default_plot, Tight_layout],
        os_path_join (report_folder self) ''shap_bar_plot.png''
          \<mapsto> Png [Summary_plot sv X Bar_plot, Tight_layout])"
    by (rule generate_basic_part_success)
  have "files w' (os_path_join (report_folder self) ''shap_summary_plot.png'')
          = Some (Png [Summary_plot sv X Default_plot, Tight_layout])"
    and "files w' (os_path_join (report_folder self) ''shap_bar_plot.png'')
          = Some (Png [Summary_plot sv X Bar_plot, Tight_layout])"
    unfolding files by (simp_all add: report_path_not_image)
  moreover have "prefix (report_folder self) (os_path_join (report_folder self) ''shap_summary_plot.png'')"
    and "prefix (report_folder self) (os_path_join (report_folder self) ''shap_bar_plot.png'')"
    by (simp_all add: os_path_join_prefix)
  ultimately show ?thesis using stages by blast
qed

theorem shap_plots_same_values_witness:
  "generate_basic_part ex_env ex_self ex_world = (Inr (ex_lines, [''x2'', ''x1'']), ex_world_plots)
   \<and> files ex_world_plots ''out/shap_summary_plot.png''
       = Some (Png [Summary_plot 8 7 Default_plot, Tight_layout])
   \<and> files ex_world_plots ''out/shap_bar_plot.png''
       = Some (Png [Summary_plot 8 7 Bar_plot, Tight_layout])"
proof -
  from shap_plots_same_values [OF ex_generate_basic_part]
  obtain predictor name model X sv where
      fit: "fit ex_env (label ex_self) (model_path ex_self) (eval_metric ex_self) (train_data ex_self)
              = Inr predictor"
    and X: "load_data_internal predictor ''train'' = Inr X"
    and model: "load_model predictor name = Inr model"
    and sv: "shap_values ex_env model X = Inr sv"
    and summary: "files ex_world_plots (os_path_join (report_folder ex_self) ''shap_summary_plot.png'')
             = Some (Png [Summary_plot sv X Default_plot, Tight_layout])"
    and bar: "files ex_world_plots (os_path_join (report_folder ex_self) ''shap_bar_plot.png'')
             = Some (Png [Summary_plot sv X Bar_plot, Tight_layout])"
    by blast
  from fit have "predictor = ex_predictor" by (simp add: ex_env_def)
  with X have "X = 7" by (simp add: ex_predictor_def)
  with sv have "sv = 8" by (simp add: ex_env_def)
  have paths: "os_path_join (report_folder ex_self) ''shap_summary_plot.png'' = ''out/shap_summary_plot.png''"
    "os_path_join (report_folder ex_self) ''shap_bar_plot.png'' = ''out/shap_bar_plot.png''"
    by (simp_all add: ex_self_def os_path_join_def)
  from summary bar show ?thesis
    unfolding paths \<open>X = 7\<close> \<open>sv = 8\<close> using ex_generate_basic_part by (intro conjI)
qed

subsection \<open>The report writer\<close>





subsection \<open>The report assembler\<close>

lemma report_lines_sections:
  "report_lines_literal target n_rows n_features importance_md summary_png bar_png used unused
       leaderboard_md
     @ recommendation_lines recommended
   = title_section target
     @ statistics_section n_rows n_features
     @ importance_section importance_md
     @ shap_section summary_png bar_png
     @ features_section used unused
     @ leaderboard_section leaderboard_md
     @ recommendation_section recommended"
  by (simp add: report_lines_literal_def recommendation_lines_def title_section_def
        statistics_section_def importance_section_def importance_glossary_def shap_section_def
        features_section_def code_block_def leaderboard_section_def leaderboard_glossary_def
        recommendation_section_def)

text \<open>
  C5. The lines that a successful run assembles are the seven parts of the document in
  this order: title and target, size and number of features, top-30 importance table with
  its glossary, the SHAP part with both image lines and its prose, the used features and
  then the unused features, each in a code block, the leaderboard with its glossary, and
  the recommended features with their number. The file written is the buffer of before
  followed by these lines; on an object fresh from the constructor the buffer is empty and
  the document is exactly the seven parts.
\<close>

theorem report_sections_in_order:
  assumes "generate_report e self w = (Inr (), self', w')"
  shows "\<exists>predictor leaderboard_df fi importance_md leaderboard_md.
           fit e (label self) (model_path self) (eval_metric self) (train_data self) = Inr predictor
         \<and> leaderboard predictor (train_data self) = Inr leaderboard_df
         \<and> feature_importance predictor (train_data self) = Inr fi
         \<and> to_markdown_named e True (head fi 30) = Inr importance_md
         \<and> to_markdown_numbered e False leaderboard_df = Inr leaderboard_md
         \<and> files w' (vp_report_path self)
             = Some (Text (str_join [CHR 0x0A]
                 (vp_report_lines self
                  @ title_section (label self)
                  @ statistics_section (len_frame (train_data self)) (length (original_features self))
                  @ importance_section importance_md
                  @ shap_section (os_path_join (report_folder self) ''shap_summary_plot.png'')
                      (os_path_join (report_folder self) ''shap_bar_plot.png'')
                  @ features_section (get_features predictor)
                      (unused_features (original_features self) (get_features predictor))
                  @ leaderboard_section leaderboard_md
                  @ recommendation_section (recommend_features fi top_k_default))))"
proof -
  let ?w1 = "py_print ''Generating Report...'' w"
  obtain r w2 where part: "generate_basic_part e self ?w1 = (r, w2)"
    by (cases "generate_basic_part e self ?w1") auto
  show ?thesis
  proof (cases r)
    case (Inl err)
    with part have "generate_report e self w = (Inl err, self, w2)"
      by (simp add: generate_report_Inl)
    with assms show ?thesis by simp
  next
    case (Inr pair)
    obtain lines rec where pair: "pair = (lines, rec)" by (cases pair) auto
    from part Inr pair have ok: "generate_basic_part e self ?w1 = (Inr (lines, rec), w2)" by simp
    from generate_report_Inr [OF ok] assms
    have w': "w' = py_print (''Report Saved at: '' @ vp_report_path self)
                (save_report (self\<lparr>vp_report_lines := vp_report_lines self @ lines\<rparr>) w2)"
      by simp
    have saved: "files w' (vp_report_path self)
                   = Some (Text (str_join [CHR 0x0A] (vp_report_lines self @ lines)))"
      unfolding w' by (simp add: py_print_def save_report_def write_text_def)
    from ok obtain predictor leaderboard_df fi importance_md leaderboard_md where
      stages: "fit e (label self) (model_path self) (eval_metric self) (train_data self) = Inr predictor"
        "leaderboard predictor (train_data self) = Inr leaderboard_df"
        "feature_importance predictor (train_data self) = Inr fi"
        "to_markdown_named e True (head fi 30) = Inr importance_md"
        "to_markdown_numbered e False leaderboard_df = Inr leaderboard_md"
      and r: "(lines, rec) = (report_lines_literal (label self) (len_frame (train_data self))
            (length (original_features self)) importance_md
            (os_path_join (report_folder self) ''shap_summary_plot.png'')
            (os_path_join (report_folder self) ''shap_bar_plot.png'')
            (get_features predictor)
            (unused_features (original_features self) (get_features predictor))
            leaderboard_md
          @ recommendation_lines (recommend_features fi top_k_default),
          recommend_features fi top_k_default)"
      by (rule generate_basic_part_success)
    from r have "lines = title_section (label self)
                  @ statistics_section (len_frame (train_data self)) (length (original_features self))
                  @ importance_section importance_md
                  @ shap_section (os_path_join (report_folder self) ''shap_summary_plot.png'')
                      (os_path_join (report_folder self) ''shap_bar_plot.png'')
                  @ features_section (get_features predictor)
                      (unused_features (original_features self) (get_features predictor))
                  @ leaderboard_section leaderboard_md
                  @ recommendation_section (recommend_features fi top_k_default)"
      by (simp only: prod.inject report_lines_sections)
    with saved stages show ?thesis by blast
  qed
qed

theorem report_sections_in_order_witness:
  "vp_report_lines ex_self = []
   \<and> fst (generate_report ex_env ex_self ex_world) = Inr ()
   \<and> files (snd (snd (generate_report ex_env ex_self ex_world))) ''out/vp_report.md''
       = Some (Text (str_join [CHR 0x0A]
           (title_section ''y''
            @ statistics_section 2 2
            @ importance_section ''| importance |''
            @ shap_section ''out/shap_summary_plot.png'' ''out/shap_bar_plot.png''
            @ features_section [''x1'', ''x2''] []
            @ leaderboard_section ''| leaderboard |''
            @ recommendation_section [''x2'', ''x1''])))"
proof -
  have ok: "fst (generate_basic_part ex_env ex_self ex_world) = Inr (ex_lines, [''x2'', ''x1''])"
    by (simp add: ex_generate_basic_part)
  from generate_report_success [OF ok, of ex_world] obtain w' where
    run: "generate_report ex_env ex_self ex_world = (Inr (), ex_self\<lparr>vp_report_lines := ex_lines\<rparr>, w')"
    by (auto simp: ex_paths)
  from report_sections_in_order [OF run]
  obtain predictor leaderboard_df fi importance_md leaderboard_md where
    fit: "fit ex_env (label ex_self) (model_path ex_self) (eval_metric ex_self) (train_data ex_self)
            = Inr predictor"
    and lb: "leaderboard predictor (train_data ex_self) = Inr leaderboard_df"
    and fi: "feature_importance predictor (train_data ex_self) = Inr fi"
    and imd: "to_markdown_named ex_env True (head fi 30) = Inr importance_md"
    and lmd: "to_markdown_numbered ex_env False leaderboard_df = Inr leaderboard_md"
    and saved: "files w' (vp_report_path ex_self)
             = Some (Text (str_join [CHR 0x0A]
                 (vp_report_lines ex_self
                  @ title_section (label ex_self)
                  @ statistics_section (len_frame (train_data ex_self)) (length (original_features ex_self))
                  @ importance_section importance_md
                  @ shap_section (os_path_join (report_folder ex_self) ''shap_summary_plot.png'')
                      (os_path_join (report_folder ex_self) ''shap_bar_plot.png'')
                  @ features_section (get_features predictor)
                      (unused_features (original_features ex_self) (get_features predictor))
                  @ leaderboard_section leaderboard_md
                  @ recommendation_section (recommend_features fi top_k_default))))"
    by blast
  from fit have predictor: "predictor = ex_predictor" by (simp add: ex_env_def)
  from fi have fi': "fi = ex_importance" by (simp add: predictor ex_predictor_def)
  from imd have imd': "importance_md = ''| importance |''" by (simp add: ex_env_def)
  from lmd have lmd': "leaderboard_md = ''| leaderboard |''" by (simp add: ex_env_def)
  have vals: "label ex_self = ''y''" "len_frame (train_data ex_self) = 2"
    "length (original_features ex_self) = 2"
    "os_path_join (report_folder ex_self) ''shap_summary_plot.png'' = ''out/shap_summary_plot.png''"
    "os_path_join (report_folder ex_self) ''shap_bar_plot.png'' = ''out/shap_bar_plot.png''"
    "get_features ex_predictor = [''x1'', ''x2'']"
    "unused_features (original_features ex_self) [''x1'', ''x2''] = []"
    "recommend_features ex_importance top_k_default = [''x2'', ''x1'']"
    by (simp_all add: ex_self_def len_frame_def os_path_join_def ex_predictor_def
          unused_features_def recommend_features_def head_def slice_to_def top_k_default_def
          ex_importance_def)
  from saved have "files w' ''out/vp_report.md''
       = Some (Text (str_join [CHR 0x0A]
           (title_section ''y''
            @ statistics_section 2 2
            @ importance_section ''| importance |''
            @ shap_section ''out/shap_summary_plot.png'' ''out/shap_bar_plot.png''
            @ features_section [''x1'', ''x2''] []
            @ leaderboard_section ''| leaderboard |''
            @ recommendation_section [''x2'', ''x1''])))"
    by (simp only: predictor fi' imd' lmd' vals ex_paths append_Nil)
  with run show ?thesis by (simp add: ex_paths)
qed

subsection \<open>The recommender leaves its argument alone\<close>

text \<open>
  C10. On a store of data frames, \<open>recommend_features\<close> called on a reference to an
  importance table returns the names that the value-level function gives for that table;
  the store after the call is the store of before with one new object at its end, so the
  table under the reference, and every other object, has the same rows in the same order
  with the same values; and a second call with the same reference and \<open>top_k\<close> returns
  the same list.
\<close>

theorem recommend_features_reads_only:
  assumes "r < length st"
  shows "\<exists>st'. recommend_features_at st r top_k = Some (recommend_features (st ! r) top_k, st')
           \<and> take (length st) st' = st
           \<and> st' ! r = st ! r
           \<and> (\<exists>st''. recommend_features_at st' r top_k
                        = Some (recommend_features (st ! r) top_k, st''))"
  using assms
  by (simp add: recommend_features_at_def head_at_def index_tolist_at_def recommend_features_def
        nth_append)

theorem recommend_features_reads_only_witness:
  "(1::nat) < length ex_store
   \<and> map_option fst (recommend_features_at ex_store 1 3) = Some [''f0'', ''f1'', ''f2'']
   \<and> map_option (take 2 \<circ> snd) (recommend_features_at ex_store 1 3) = Some ex_store"
proof -
  have len: "(1::nat) < length ex_store" "length ex_store = 2" by (simp_all add: ex_store_def)
  from recommend_features_reads_only [OF len(1), of 3] obtain st' where
    call: "recommend_features_at ex_store 1 3 = Some (recommend_features (ex_store ! 1) 3, st')"
    and same: "take (length ex_store) st' = ex_store"
    by blast
  have "recommend_features (ex_store ! 1) 3 = [''f0'', ''f1'', ''f2'']"
    by (simp add: ex_store_def ex_ten_def recommend_features_def head_def slice_to_def)
  with call same len show ?thesis by simp
qed

end
